theory Spec2Isabelle
  imports Main
begin

section \<open>Exceptions\<close>

text \<open>
  The Python exceptions that the two modules can raise. A function that can raise returns
  \<open>error + 'a\<close>, with \<open>Inl\<close> for the exception; messages are left out, except for the key
  that a \<open>KeyError\<close> reports.
\<close>

datatype error = ValueError | IndexError | KeyError string | TypeError

definition ebind :: "error + 'a \<Rightarrow> ('a \<Rightarrow> error + 'b) \<Rightarrow> error + 'b" where
  "ebind m f = (case m of Inl e \<Rightarrow> Inl e | Inr x \<Rightarrow> f x)"

section \<open>animj.py: line objects of an animation\<close>

subsection \<open>Arrays, slices and line objects\<close>

text \<open>
  \<open>plotdata\<close> is a numpy array of size (numlines, numdimensions, numsamples): its shape and
  its cells. A numpy array is rectangular by construction, which the representation keeps.
\<close>

record 'a ndarray3 =
  n_lines :: nat
  n_dims :: nat
  n_samples :: nat
  at3 :: "nat \<Rightarrow> nat \<Rightarrow> nat \<Rightarrow> 'a"

text \<open>
  A Python slice \<open>lo:hi\<close> along an axis of length \<open>n\<close>: a negative bound counts from the
  end, and every bound is clipped to the axis. \<open>slice_indices\<close> lists the positions taken.
\<close>

definition slice_bound :: "nat \<Rightarrow> int \<Rightarrow> nat" where
  "slice_bound n i = (if i < 0 then nat (max (i + int n) 0) else min (nat i) n)"

definition slice_indices :: "int option \<Rightarrow> int option \<Rightarrow> nat \<Rightarrow> nat list" where
  "slice_indices lo hi n =
     [(case lo of None \<Rightarrow> 0 | Some i \<Rightarrow> slice_bound n i) ..<
      (case hi of None \<Rightarrow> n | Some j \<Rightarrow> slice_bound n j)]"

text \<open>
  \<open>data = plotdata[i]\<close>; \<open>rows_slice\<close> is \<open>data[ds, ts]\<close> for lists of positions along the
  two axes, and \<open>row_slice\<close> is \<open>data[d, ts]\<close>.
\<close>

definition rows_slice :: "'a ndarray3 \<Rightarrow> nat \<Rightarrow> nat list \<Rightarrow> nat list \<Rightarrow> 'a list list" where
  "rows_slice plotdata i ds ts = map (\<lambda>d. map (\<lambda>t. at3 plotdata i d t) ts) ds"

definition row_slice :: "'a ndarray3 \<Rightarrow> nat \<Rightarrow> nat \<Rightarrow> nat list \<Rightarrow> 'a list" where
  "row_slice plotdata i d ts = map (\<lambda>t. at3 plotdata i d t) ts"

text \<open>
  A line (or text) object of the plotting library, as far as the module touches it: the data
  given to \<open>set_data\<close>, the data given to \<open>set_3d_properties\<close>, the marker and the text.
  The objects of one list are taken to be pairwise different objects, so that a list of
  records stands for the list of objects and their states.
\<close>

record 'a line =
  xydata :: "'a list list"
  zdata :: "'a list"
  marker :: string
  text_of :: string

definition set_data :: "'a line \<Rightarrow> 'a list list \<Rightarrow> 'a line" where
  "set_data ln a = ln\<lparr>xydata := a\<rparr>"

definition set_3d_properties :: "'a line \<Rightarrow> 'a list \<Rightarrow> 'a line" where
  "set_3d_properties ln z = ln\<lparr>zdata := z\<rparr>"

definition set_marker :: "'a line \<Rightarrow> string \<Rightarrow> 'a line" where
  "set_marker ln m = ln\<lparr>marker := m\<rparr>"


text \<open>\<open>ax.plot(...)[0]\<close>: a new line object showing the given data.\<close>

definition plot :: "'a list list \<Rightarrow> 'a list \<Rightarrow> 'a line" where
  "plot xy z = \<lparr>xydata = xy, zdata = z, marker = ''None'', text_of = []\<rparr>"

subsection \<open>def_lines\<close>

definition def_lines :: "'a ndarray3 \<Rightarrow> error + 'a line list" where
  "def_lines plotdata =
     (let num_dims = n_dims plotdata;
          first = slice_indices (Some 0) (Some 1) (n_samples plotdata)
      in if num_dims = 2 then
           Inr (map (\<lambda>i. plot [row_slice plotdata i 0 first, row_slice plotdata i 1 first] [])
                  [0..<n_lines plotdata])
         else if num_dims = 3 then
           Inr (map (\<lambda>i. plot [row_slice plotdata i 0 first, row_slice plotdata i 1 first]
                              (row_slice plotdata i 2 first))
                  [0..<n_lines plotdata])
         else Inl ValueError)"

subsection \<open>update_lines\<close>

text \<open>
  The body of the loop \<open>for line, data in zip(lines, plotdata)\<close>, for the line at
  position \<open>i\<close> and \<open>data = plotdata[i]\<close>.
\<close>

definition update_line :: "int \<Rightarrow> 'a ndarray3 \<Rightarrow> int option \<Rightarrow> 'a line \<Rightarrow> nat \<Rightarrow> 'a line" where
  "update_line num plotdata numsamples ln i =
     (let num_dims = n_dims plotdata;
          D = n_dims plotdata;
          T = n_samples plotdata;
          ln1 =
            (case numsamples of
               None \<Rightarrow>
                 if num_dims = 2 then
                   set_data ln (rows_slice plotdata i (slice_indices None None D)
                                  (slice_indices None (Some num) T))
                 else if num_dims = 3 then
                   set_3d_properties
                     (set_data ln (rows_slice plotdata i (slice_indices (Some 0) (Some 2) D)
                                     (slice_indices None (Some num) T)))
                     (row_slice plotdata i 2 (slice_indices None (Some num) T))
                 else ln
             | Some w \<Rightarrow>
                 if num_dims = 2 then
                   set_data ln (rows_slice plotdata i (slice_indices None None D)
                                  (slice_indices (Some (num - w)) (Some num) T))
                 else if num_dims = 3 then
                   set_3d_properties
                     (set_data ln (rows_slice plotdata i (slice_indices (Some 0) (Some 2) D)
                                     (slice_indices (Some (num - w)) (Some num) T)))
                     (row_slice plotdata i 2 (slice_indices (Some (num - w)) (Some num) T))
                 else ln)
      in set_marker ln1 ''o'')"

text \<open>
  The loop over \<open>zip(lines, plotdata)\<close>: it stops with the shorter of the two, and the lines
  beyond it stay as they are. \<open>i\<close> is the position of the next pair and \<open>n\<close> the number of
  trajectories.
\<close>

fun zip_loop :: "('a line \<Rightarrow> nat \<Rightarrow> 'a line) \<Rightarrow> 'a line list \<Rightarrow> nat \<Rightarrow> nat \<Rightarrow> 'a line list" where
  "zip_loop body [] i n = []"
| "zip_loop body (ln # lns) i n =
     (if i < n then body ln i # zip_loop body lns (Suc i) n else ln # lns)"

definition update_lines :: "int \<Rightarrow> 'a ndarray3 \<Rightarrow> 'a line list \<Rightarrow> int option \<Rightarrow> 'a line list" where
  "update_lines num plotdata lines numsamples =
     zip_loop (update_line num plotdata numsamples) lines 0 (n_lines plotdata)"

subsection \<open>update_lines_counter\<close>



section \<open>matlabimport.py: loading MATLAB files\<close>

subsection \<open>Values of a loaded file\<close>

text \<open>
  What \<open>scipy.io.loadmat\<close> hands over, as far as the module looks into it: numbers, strings,
  arrays (a numpy array of any rank is the list of its items along the first axis), MATLAB
  structs (named fields in the order of the file) and, for the output only, Python
  dictionaries. Numbers are integers throughout: floating point is outside the model.
\<close>

datatype pyval =
    Num int
  | Str string
  | Arr "pyval list"
  | Rec "(string \<times> pyval) list"
  | Dict "(string \<times> pyval) list"

text \<open>\<open>x[i]\<close> for a position \<open>i\<close>; a struct record gives its fields by position.\<close>

fun index :: "pyval \<Rightarrow> nat \<Rightarrow> error + pyval" where
  "index (Arr xs) i = (if i < length xs then Inr (xs ! i) else Inl IndexError)"
| "index (Rec fs) i = (if i < length fs then Inr (snd (fs ! i)) else Inl IndexError)"
| "index (Str s) i = (if i < length s then Inr (Str [s ! i]) else Inl IndexError)"
| "index (Num n) i = Inl IndexError"
| "index (Dict d) i = Inl (KeyError [])"

text \<open>\<open>x[0,0]\<close>.\<close>

definition index2 :: "pyval \<Rightarrow> nat \<Rightarrow> nat \<Rightarrow> error + pyval" where
  "index2 x i j = ebind (index x i) (\<lambda>y. index y j)"

text \<open>\<open>x['name']\<close>.\<close>

fun getfield :: "pyval \<Rightarrow> string \<Rightarrow> error + pyval" where
  "getfield (Rec fs) name = (case map_of fs name of Some v \<Rightarrow> Inr v | None \<Rightarrow> Inl ValueError)"
| "getfield (Dict d) name = (case map_of d name of Some v \<Rightarrow> Inr v | None \<Rightarrow> Inl (KeyError name))"
| "getfield (Arr xs) name = Inl IndexError"
| "getfield (Num n) name = Inl IndexError"
| "getfield (Str s) name = Inl TypeError"

text \<open>
  \<open>x - 1\<close>: numpy subtracts from every item of an array, and raises on what is not a number.
\<close>

fun sequence :: "(error + 'a) list \<Rightarrow> error + 'a list" where
  "sequence [] = Inr []"
| "sequence (m # ms) =
     (case m of Inl e \<Rightarrow> Inl e
      | Inr x \<Rightarrow> (case sequence ms of Inl e \<Rightarrow> Inl e | Inr xs \<Rightarrow> Inr (x # xs)))"

fun minus1 :: "pyval \<Rightarrow> error + pyval" where
  "minus1 (Num n) = Inr (Num (n - 1))"
| "minus1 (Arr xs) = (case sequence (map minus1 xs) of Inl e \<Rightarrow> Inl e | Inr ys \<Rightarrow> Inr (Arr ys))"
| "minus1 (Str s) = Inl TypeError"
| "minus1 (Rec fs) = Inl TypeError"
| "minus1 (Dict d) = Inl TypeError"

text \<open>\<open>len(x)\<close>.\<close>

fun len :: "pyval \<Rightarrow> error + nat" where
  "len (Arr xs) = Inr (length xs)"
| "len (Rec fs) = Inr (length fs)"
| "len (Str s) = Inr (length s)"
| "len (Dict d) = Inr (length d)"
| "len (Num n) = Inl TypeError"

text \<open>Storing a value into a numpy array of integers.\<close>

fun to_int :: "pyval \<Rightarrow> error + int" where
  "to_int (Num n) = Inr n"
| "to_int v = Inl TypeError"

text \<open>
  The loaded file \<open>matdata\<close> is used as a mapping: the loops iterate its keys and subscript
  it. \<open>mat_getitem\<close> is \<open>matdata[key]\<close>, which can raise. \<open>dict_of\<close> is the mapping of a
  plain dictionary, given as the list of its items.
\<close>

record matfile =
  mat_keys :: "string list"
  mat_getitem :: "string \<Rightarrow> error + pyval"

definition dict_getitem :: "(string \<times> pyval) list \<Rightarrow> string \<Rightarrow> error + pyval" where
  "dict_getitem d k = (case map_of d k of Some v \<Rightarrow> Inr v | None \<Rightarrow> Inl (KeyError k))"

definition dict_of :: "(string \<times> pyval) list \<Rightarrow> matfile" where
  "dict_of d = \<lparr>mat_keys = map fst d, mat_getitem = dict_getitem d\<rparr>"

text \<open>
  \<open>d.update({k: v})\<close> and \<open>d[k] = v\<close> on a dictionary kept as the list of its items: a key
  that is present keeps its place, a new key goes to the end.
\<close>

fun dict_update :: "string \<Rightarrow> pyval \<Rightarrow> (string \<times> pyval) list \<Rightarrow> (string \<times> pyval) list" where
  "dict_update k v [] = [(k, v)]"
| "dict_update k v (p # ps) = (if fst p = k then (k, v) # ps else p # dict_update k v ps)"

text \<open>\<open>d[k][sub] = v\<close> for a dictionary \<open>d[k]\<close> inside the dictionary \<open>d\<close>.\<close>

definition set_nested ::
  "string \<Rightarrow> string \<Rightarrow> pyval \<Rightarrow> (string \<times> pyval) list \<Rightarrow> error + (string \<times> pyval) list" where
  "set_nested k sub v d =
     (case map_of d k of
        Some (Dict inner) \<Rightarrow> Inr (dict_update k (Dict (dict_update sub v inner)) d)
      | Some other \<Rightarrow> Inl TypeError
      | None \<Rightarrow> Inl (KeyError k))"

subsection \<open>The type of a file, from its name\<close>

text \<open>
  \<open>os.path.split\<close> and \<open>os.path.splitext\<close> of Python's posixpath. \<open>rfind\<close> is \<open>str.rfind\<close>:
  the position of the last occurrence, or -1.
\<close>

definition rfind :: "char \<Rightarrow> string \<Rightarrow> int" where
  "rfind c s =
     (if c \<in> set s then int (length s) - 1 - int (length (takeWhile (\<lambda>x. x \<noteq> c) (rev s)))
      else - 1)"

definition rstrip :: "char \<Rightarrow> string \<Rightarrow> string" where
  "rstrip c s = rev (dropWhile (\<lambda>x. x = c) (rev s))"

definition os_path_split :: "string \<Rightarrow> string \<times> string" where
  "os_path_split p =
     (let i = nat (rfind CHR ''/'' p + 1);
          head = take i p;
          tail = drop i p
      in (if head \<noteq> [] \<and> head \<noteq> replicate (length head) CHR ''/''
          then rstrip CHR ''/'' head else head, tail))"

definition os_path_splitext :: "string \<Rightarrow> string \<times> string" where
  "os_path_splitext p =
     (let sepIndex = rfind CHR ''/'' p;
          dotIndex = rfind CHR ''.'' p
      in if dotIndex > sepIndex \<and>
            list_ex (\<lambda>c. c \<noteq> CHR ''.'')
              (take (nat (dotIndex - (sepIndex + 1))) (drop (nat (sepIndex + 1)) p))
         then (take (nat dotIndex) p, drop (nat dotIndex) p)
         else (p, []))"

definition filetype_of :: "string \<Rightarrow> string" where
  "filetype_of loadfilename = fst (os_path_splitext (snd (os_path_split loadfilename)))"

definition is_analog_file :: "(string \<times> bool) list" where
  "is_analog_file =
     [(''LFP'', True), (''LFPb'', True), (''MUAe'', True), (''NCS'', True), (''CSC'', True),
      (''hash'', False), (''unit'', False), (''microsaccades'', False)]"

text \<open>\<open>needle in s\<close> for strings.\<close>

fun starts_with :: "string \<Rightarrow> string \<Rightarrow> bool" where
  "starts_with [] s = True"
| "starts_with (c # cs) [] = False"
| "starts_with (c # cs) (x # xs) = (c = x \<and> starts_with cs xs)"

fun str_contains :: "string \<Rightarrow> string \<Rightarrow> bool" where
  "str_contains needle [] = (needle = [])"
| "str_contains needle (x # xs) = (starts_with needle (x # xs) \<or> str_contains needle xs)"

subsection \<open>load_data\<close>

text \<open>
  The state of the loop of \<open>load_data\<close>: the dictionary \<open>pydata\<close> built so far and the lines
  that \<open>print\<close> has written. \<open>load_key\<close> is the body of the loop for one key. An exception
  leaves the function, except inside the \<open>try\<close> of the last branch.
\<close>

record load_state =
  pydata :: "(string \<times> pyval) list"
  printed :: "string list"

definition load_key :: "string \<Rightarrow> matfile \<Rightarrow> load_state \<Rightarrow> string \<Rightarrow> error + load_state" where
  "load_key filetype matdata st key =
     (if str_contains ''Align'' key then
        (case map_of is_analog_file filetype of
           None \<Rightarrow> Inl (KeyError filetype)
         | Some True \<Rightarrow>
             (let d0 = dict_update key (Dict []) (pydata st) in
              ebind (mat_getitem matdata key) (\<lambda>v1.
              ebind (getfield v1 ''TimeStamps'') (\<lambda>f1.
              ebind (index2 f1 0 0) (\<lambda>ts.
              ebind (set_nested key ''TimeStamps'' ts d0) (\<lambda>d1.
              ebind (mat_getitem matdata key) (\<lambda>v2.
              ebind (getfield v2 ''Samples'') (\<lambda>f2.
              ebind (index2 f2 0 0) (\<lambda>ss.
              ebind (set_nested key ''Samples'' ss d1) (\<lambda>d2.
              Inr (st\<lparr>pydata := d2\<rparr>))))))))))
         | Some False \<Rightarrow>
             ebind (mat_getitem matdata key) (\<lambda>v.
             Inr (st\<lparr>pydata := dict_update key v (pydata st)\<rparr>)))
      else if key = ''area'' then
        ebind (mat_getitem matdata key) (\<lambda>v.
        Inr (st\<lparr>pydata := dict_update key v (pydata st)\<rparr>))
      else if key = ''unitList'' then
        ebind (mat_getitem matdata key) (\<lambda>v.
        ebind (minus1 v) (\<lambda>w.
        Inr (st\<lparr>pydata := dict_update key w (pydata st)\<rparr>)))
      else
        (case mat_getitem matdata key of
           Inr v \<Rightarrow> Inr (st\<lparr>pydata := dict_update key v (pydata st)\<rparr>)
         | Inl e \<Rightarrow> Inr (st\<lparr>printed := printed st @ [''Cannot process '' @ key]\<rparr>)))"

fun load_loop :: "string \<Rightarrow> matfile \<Rightarrow> load_state \<Rightarrow> string list \<Rightarrow> error + load_state" where
  "load_loop filetype matdata st [] = Inr st"
| "load_loop filetype matdata st (key # keys) =
     (case load_key filetype matdata st key of
        Inl e \<Rightarrow> Inl e
      | Inr st' \<Rightarrow> load_loop filetype matdata st' keys)"

text \<open>
  \<open>load_data\<close>, from the file name and the mapping that \<open>import_data\<close> has returned for it
  (reading the file is the work of scipy, and \<open>variables2load\<close> only goes there). The
  result holds the returned dictionary and what was printed.
\<close>

definition load_data :: "string \<Rightarrow> matfile \<Rightarrow> error + load_state" where
  "load_data loadfilename matdata =
     (let (path, filename) = os_path_split loadfilename;
          (filetype, ext) = os_path_splitext filename
      in load_loop filetype matdata \<lparr>pydata = [], printed = []\<rparr> (mat_keys matdata))"

subsection \<open>load_trialdata\<close>

text \<open>
  The arrays and lists that \<open>load_trialdata\<close> fills, one item for each trial, and a row of
  the table that it returns.
\<close>

record trial_arrays =
  arr_CTX_events :: "pyval list"
  arr_NLX_events :: "pyval list"
  arr_cond :: "int list"
  arr_trial_ID :: "int list"
  arr_RT_evnt :: "int list"
  arr_RT_EPP :: "int list"
  arr_target_dim :: "int list"
  arr_rf_dim :: "int list"
  arr_position_RF :: "int list"
  arr_position_out1 :: "int list"
  arr_position_out2 :: "int list"
  arr_fixbreak :: "int list"

record trial_row =
  trial_ID :: int
  attend :: int
  cond :: int
  RT_evnt :: int
  RT_EPP :: int
  target_dim :: int
  rf_dim :: int
  position_RF :: int
  position_out1 :: int
  position_out2 :: int
  fixbreak :: int
  CTX_events :: pyval
  NLX_events :: pyval

text \<open>
  \<open>matdata[itrial][j]\<close>, and \<open>matdata[itrial][j][0][0]\<close> on its way into an array of integers.
\<close>

definition field :: "pyval \<Rightarrow> nat \<Rightarrow> nat \<Rightarrow> error + pyval" where
  "field trials itrial j = ebind (index trials itrial) (\<lambda>t. index t j)"

definition scalar :: "pyval \<Rightarrow> nat \<Rightarrow> nat \<Rightarrow> error + int" where
  "scalar trials itrial j =
     ebind (field trials itrial j) (\<lambda>f.
     ebind (index f 0) (\<lambda>g.
     ebind (index g 0) to_int))"

text \<open>
  The body of the loop over the trials. The twelve fields are read in the order of the
  source; the first one that cannot be read raises. The stores go to position \<open>itrial\<close> of
  arrays of length \<open>num_trial\<close>, where they cannot fail.
\<close>

definition trial_step :: "pyval \<Rightarrow> trial_arrays \<Rightarrow> nat \<Rightarrow> error + trial_arrays" where
  "trial_step trials a itrial =
     ebind (field trials itrial 0) (\<lambda>v0.
     ebind (field trials itrial 1) (\<lambda>v1.
     ebind (scalar trials itrial 2) (\<lambda>v2.
     ebind (scalar trials itrial 3) (\<lambda>v3.
     ebind (scalar trials itrial 4) (\<lambda>v4.
     ebind (scalar trials itrial 5) (\<lambda>v5.
     ebind (scalar trials itrial 6) (\<lambda>v6.
     ebind (scalar trials itrial 7) (\<lambda>v7.
     ebind (scalar trials itrial 8) (\<lambda>v8.
     ebind (scalar trials itrial 9) (\<lambda>v9.
     ebind (scalar trials itrial 10) (\<lambda>v10.
     ebind (scalar trials itrial 11) (\<lambda>v11.
     Inr (a\<lparr>arr_CTX_events := (arr_CTX_events a)[itrial := v0],
            arr_NLX_events := (arr_NLX_events a)[itrial := v1],
            arr_trial_ID := (arr_trial_ID a)[itrial := v2],
            arr_cond := (arr_cond a)[itrial := v3],
            arr_RT_evnt := (arr_RT_evnt a)[itrial := v4],
            arr_RT_EPP := (arr_RT_EPP a)[itrial := v5],
            arr_target_dim := (arr_target_dim a)[itrial := v6],
            arr_rf_dim := (arr_rf_dim a)[itrial := v7],
            arr_position_RF := (arr_position_RF a)[itrial := v8],
            arr_position_out1 := (arr_position_out1 a)[itrial := v9],
            arr_position_out2 := (arr_position_out2 a)[itrial := v10],
            arr_fixbreak := (arr_fixbreak a)[itrial := v11]\<rparr>)))))))))))))"

fun trial_loop :: "pyval \<Rightarrow> trial_arrays \<Rightarrow> nat list \<Rightarrow> error + trial_arrays" where
  "trial_loop trials a [] = Inr a"
| "trial_loop trials a (itrial # rest) =
     (case trial_step trials a itrial of
        Inl e \<Rightarrow> Inl e
      | Inr a' \<Rightarrow> trial_loop trials a' rest)"

text \<open>
  \<open>numpy.logical_or\<close> of two masks, and the store \<open>xs[mask] = v\<close>. Mask and array have the
  same length wherever the module uses them.
\<close>

definition logical_or :: "bool list \<Rightarrow> bool list \<Rightarrow> bool list" where
  "logical_or xs ys = map (\<lambda>(x, y). x \<or> y) (zip xs ys)"

definition mask_assign :: "bool list \<Rightarrow> int \<Rightarrow> int list \<Rightarrow> int list" where
  "mask_assign msk v xs = map (\<lambda>(m, x). if m then v else x) (zip msk xs)"

definition attend_of_cond :: "int list \<Rightarrow> nat \<Rightarrow> int list" where
  "attend_of_cond cond_arr num_trial =
     (let attend0 = replicate num_trial 0;
          attend1 = mask_assign (logical_or (map (\<lambda>c. c = 1) cond_arr) (map (\<lambda>c. c = 4) cond_arr))
                      1 attend0;
          attend2 = mask_assign (logical_or (map (\<lambda>c. c = 2) cond_arr) (map (\<lambda>c. c = 5) cond_arr))
                      2 attend1;
          attend3 = mask_assign (logical_or (map (\<lambda>c. c = 3) cond_arr) (map (\<lambda>c. c = 6) cond_arr))
                      3 attend2
      in attend3)"

text \<open>
  \<open>pandas.DataFrame\<close> of the dictionary of columns: the table as the list of its rows.
  pandas refuses columns of different lengths.
\<close>

definition data_frame :: "trial_arrays \<Rightarrow> int list \<Rightarrow> error + trial_row list" where
  "data_frame a attend_arr =
     (let n = length (arr_trial_ID a)
      in if length (arr_cond a) = n \<and>
            length (arr_RT_evnt a) = n \<and>
            length (arr_RT_EPP a) = n \<and>
            length (arr_target_dim a) = n \<and>
            length (arr_rf_dim a) = n \<and>
            length (arr_position_RF a) = n \<and>
            length (arr_position_out1 a) = n \<and>
            length (arr_position_out2 a) = n \<and>
            length (arr_fixbreak a) = n \<and>
            length attend_arr = n \<and>
            length (arr_CTX_events a) = n \<and>
            length (arr_NLX_events a) = n
         then Inr (map (\<lambda>i. \<lparr>trial_ID = arr_trial_ID a ! i,
                       attend = attend_arr ! i,
                       cond = arr_cond a ! i,
                       RT_evnt = arr_RT_evnt a ! i,
                       RT_EPP = arr_RT_EPP a ! i,
                       target_dim = arr_target_dim a ! i,
                       rf_dim = arr_rf_dim a ! i,
                       position_RF = arr_position_RF a ! i,
                       position_out1 = arr_position_out1 a ! i,
                       position_out2 = arr_position_out2 a ! i,
                       fixbreak = arr_fixbreak a ! i,
                       CTX_events = arr_CTX_events a ! i,
                       NLX_events = arr_NLX_events a ! i\<rparr>) [0..<n])
         else Inl ValueError)"

text \<open>
  The arrays before the loop: a list of empty lists for each of the two event sources, and
  arrays of zeros.
\<close>

definition init_arrays :: "nat \<Rightarrow> trial_arrays" where
  "init_arrays num_trial =
       \<lparr>arr_CTX_events = replicate num_trial (Arr []),
        arr_NLX_events = replicate num_trial (Arr []),
        arr_cond = replicate num_trial 0,
        arr_trial_ID = replicate num_trial 0,
        arr_RT_evnt = replicate num_trial 0,
        arr_RT_EPP = replicate num_trial 0,
        arr_target_dim = replicate num_trial 0,
        arr_rf_dim = replicate num_trial 0,
        arr_position_RF = replicate num_trial 0,
        arr_position_out1 = replicate num_trial 0,
        arr_position_out2 = replicate num_trial 0,
        arr_fixbreak = replicate num_trial 0\<rparr>"

text \<open>
  \<open>load_trialdata\<close>, from the mapping that \<open>import_data\<close> has returned for a file that
  exists.
\<close>

definition load_trialdata :: "matfile \<Rightarrow> error + trial_row list" where
  "load_trialdata matdata0 =
     ebind (mat_getitem matdata0 ''trialdata'') (\<lambda>td.
     ebind (index td 0) (\<lambda>matdata.
     ebind (len matdata) (\<lambda>num_trial.
     ebind (trial_loop matdata (init_arrays num_trial) [0..<num_trial]) (\<lambda>a.
     data_frame a (attend_of_cond (arr_cond a) num_trial)))))"

subsection \<open>Notions of the specification\<close>

text \<open>
  The category of a file in the words of the specification: the part of the file name
  before the first extension separator.
\<close>

definition category_before_first_dot :: "string \<Rightarrow> string" where
  "category_before_first_dot loadfilename =
     takeWhile (\<lambda>c. c \<noteq> CHR ''.'') (snd (os_path_split loadfilename))"





text \<open>
  The attention condition of a condition code, in the words of the specification: 1 and 4
  are attend-RF (1), 2 and 5 attend-away-1 (2), 3 and 6 attend-away-2 (3), any other code
  is unset (0).
\<close>

definition attention_condition :: "int \<Rightarrow> int" where
  "attention_condition c =
     (if c = 1 \<or> c = 4 then 1 else if c = 2 \<or> c = 5 then 2 else if c = 3 \<or> c = 6 then 3 else 0)"

text \<open>All twelve arrays of the loop have the length \<open>n\<close>.\<close>

definition arrays_of_length :: "trial_arrays \<Rightarrow> nat \<Rightarrow> bool" where
  "arrays_of_length a n \<longleftrightarrow>
     length (arr_CTX_events a) = n \<and>
     length (arr_NLX_events a) = n \<and>
     length (arr_cond a) = n \<and>
     length (arr_trial_ID a) = n \<and>
     length (arr_RT_evnt a) = n \<and>
     length (arr_RT_EPP a) = n \<and>
     length (arr_target_dim a) = n \<and>
     length (arr_rf_dim a) = n \<and>
     length (arr_position_RF a) = n \<and>
     length (arr_position_out1 a) = n \<and>
     length (arr_position_out2 a) = n \<and>
     length (arr_fixbreak a) = n"

text \<open>
  What one pass of the loop of \<open>load_data\<close> does for its key, apart from the dictionary it
  works on: it raises, or stores a value under the key (\<open>Some\<close>), or prints that the key
  cannot be processed and stores nothing (\<open>None\<close>).
\<close>

definition key_entry :: "string \<Rightarrow> matfile \<Rightarrow> string \<Rightarrow> error + pyval option" where
  "key_entry filetype matdata key =
     (case load_key filetype matdata \<lparr>pydata = [], printed = []\<rparr> key of
        Inl e \<Rightarrow> Inl e
      | Inr st \<Rightarrow> Inr (map_of (pydata st) key))"

section \<open>Properties of animj.py\<close>

subsection \<open>The loop over the lines\<close>


lemma zip_loop_nth:
  "j < length lns \<Longrightarrow>
   zip_loop body lns i n ! j = (if i + j < n then body (lns ! j) (i + j) else lns ! j)"
proof (induction lns arbitrary: i j)
  case Nil
  then show ?case by simp
next
  case (Cons ln lns)
  show ?case
  proof (cases j)
    case 0
    then show ?thesis by simp
  next
    case (Suc k)
    with Cons.prems have "k < length lns" by simp
    from Cons.IH [OF this, of "Suc i"] Suc show ?thesis by auto
  qed
qed

lemma update_lines_nth:
  "i < length lines \<Longrightarrow>
   update_lines num pd lines ns ! i =
     (if i < n_lines pd then update_line num pd ns (lines ! i) i else lines ! i)"
  by (simp add: update_lines_def zip_loop_nth)

subsection \<open>Slices inside the array\<close>

lemma slice_upto: "0 \<le> f \<Longrightarrow> f \<le> int n \<Longrightarrow> slice_indices None (Some f) n = [0..<nat f]"
  by (simp add: slice_indices_def slice_bound_def min_def)

lemma slice_window:
  assumes "0 \<le> f" "f \<le> int n" "w \<le> f"
  shows "slice_indices (Some (f - w)) (Some f) n = [nat (f - w)..<nat f]"
proof (cases "0 \<le> w")
  case True
  with assms show ?thesis
    by (auto simp add: slice_indices_def slice_bound_def min_def)
next
  case False
  with assms have "nat f \<le> min (nat (f - w)) n" "nat f \<le> nat (f - w)" by auto
  with assms False show ?thesis
    by (simp add: slice_indices_def slice_bound_def)
qed

lemma slice_dims2: "slice_indices None None 2 = [0, 1]"
  by (simp add: slice_indices_def upt_rec)

lemma slice_dims3: "slice_indices (Some 0) (Some 2) 3 = [0, 1]"
  by (simp add: slice_indices_def slice_bound_def upt_rec)

subsection \<open>One pass of the loop body\<close>


lemma update_line_xydata:
  "n_dims pd = 2 \<or> n_dims pd = 3 \<Longrightarrow>
   xydata (update_line num pd ns ln i) =
     rows_slice pd i [0, 1]
       (slice_indices (case ns of None \<Rightarrow> None | Some w \<Rightarrow> Some (num - w)) (Some num) (n_samples pd))"
  by (auto simp add: update_line_def Let_def set_marker_def set_data_def set_3d_properties_def
      slice_dims2 slice_dims3 split: option.splits)

lemma update_line_zdata3:
  "n_dims pd = 3 \<Longrightarrow>
   zdata (update_line num pd ns ln i) =
     row_slice pd i 2
       (slice_indices (case ns of None \<Rightarrow> None | Some w \<Rightarrow> Some (num - w)) (Some num) (n_samples pd))"
  by (auto simp add: update_line_def Let_def set_marker_def set_data_def set_3d_properties_def
      split: option.splits)

lemma update_line_zdata2: "n_dims pd = 2 \<Longrightarrow> zdata (update_line num pd ns ln i) = zdata ln"
  by (auto simp add: update_line_def Let_def set_marker_def set_data_def set_3d_properties_def
      split: option.splits)

lemma update_line_other:
  "n_dims pd \<noteq> 2 \<Longrightarrow> n_dims pd \<noteq> 3 \<Longrightarrow> update_line num pd ns ln i = ln\<lparr>marker := ''o''\<rparr>"
  by (auto simp add: update_line_def Let_def set_marker_def split: option.splits)

subsection \<open>What update_lines shows\<close>

text \<open>
  Claim C8. Let the bundle have two or three dimensions and let the frame index \<open>f\<close> lie
  between 0 and the number of samples. After \<open>update_lines\<close> without \<open>numsamples\<close>, every
  line that is paired with a trajectory holds exactly the samples \<open>[0, f)\<close> of that
  trajectory; with \<open>numsamples = w\<close> and \<open>w \<le> f\<close> it holds exactly the samples
  \<open>[f - w, f)\<close>. With three dimensions the first two rows are given to \<open>set_data\<close> and the
  third row, over the same samples, to \<open>set_3d_properties\<close>; with two dimensions
  \<open>set_3d_properties\<close> is not called.
\<close>

theorem update_lines_shows_samples:
  assumes "n_dims pd = 2 \<or> n_dims pd = 3" and "0 \<le> f" and "f \<le> int (n_samples pd)"
    and "i < length lines" and "i < n_lines pd"
  shows "xydata (update_lines f pd lines None ! i) =
           [map (at3 pd i 0) [0..<nat f], map (at3 pd i 1) [0..<nat f]] \<and>
         (n_dims pd = 3 \<longrightarrow> zdata (update_lines f pd lines None ! i) = map (at3 pd i 2) [0..<nat f]) \<and>
         (n_dims pd = 2 \<longrightarrow> zdata (update_lines f pd lines None ! i) = zdata (lines ! i)) \<and>
         (w \<le> f \<longrightarrow>
            xydata (update_lines f pd lines (Some w) ! i) =
              [map (at3 pd i 0) [nat (f - w)..<nat f], map (at3 pd i 1) [nat (f - w)..<nat f]] \<and>
            (n_dims pd = 3 \<longrightarrow>
               zdata (update_lines f pd lines (Some w) ! i) = map (at3 pd i 2) [nat (f - w)..<nat f]) \<and>
            (n_dims pd = 2 \<longrightarrow> zdata (update_lines f pd lines (Some w) ! i) = zdata (lines ! i)))"
  using assms
  by (simp add: update_lines_nth update_line_xydata update_line_zdata3 update_line_zdata2
      slice_upto slice_window rows_slice_def row_slice_def)

theorem update_lines_shows_samples_witness:
  "xydata (update_lines 3 \<lparr>n_lines = 1, n_dims = 3, n_samples = 4, at3 = (\<lambda>i d t. int (10 * d + t))\<rparr>
      [plot [[0], [10]] [20]] None ! 0) = [[0, 1, 2], [10, 11, 12]] \<and>
   zdata (update_lines 3 \<lparr>n_lines = 1, n_dims = 3, n_samples = 4, at3 = (\<lambda>i d t. int (10 * d + t))\<rparr>
      [plot [[0], [10]] [20]] None ! 0) = [20, 21, 22] \<and>
   xydata (update_lines 3 \<lparr>n_lines = 1, n_dims = 3, n_samples = 4, at3 = (\<lambda>i d t. int (10 * d + t))\<rparr>
      [plot [[0], [10]] [20]] (Some 2) ! 0) = [[1, 2], [11, 12]] \<and>
   zdata (update_lines 3 \<lparr>n_lines = 1, n_dims = 3, n_samples = 4, at3 = (\<lambda>i d t. int (10 * d + t))\<rparr>
      [plot [[0], [10]] [20]] (Some 2) ! 0) = [21, 22]"
  using update_lines_shows_samples [of "\<lparr>n_lines = 1, n_dims = 3, n_samples = 4, at3 = (\<lambda>i d t. int (10 * d + t))\<rparr>"
      3 0 "[plot [[0], [10]] [20]]" 2]
  by (simp add: upt_rec)


subsection \<open>The text object of update_lines_counter\<close>












subsection \<open>Bundles of another dimension\<close>

text \<open>
  With any other number of dimensions the loop body only sets the marker: every line
  paired with a trajectory gets the marker and keeps its data, and no exception is raised.
\<close>

lemma update_lines_other_dims:
  "n_dims pd \<noteq> 2 \<Longrightarrow> n_dims pd \<noteq> 3 \<Longrightarrow> i < length lines \<Longrightarrow>
   update_lines num pd lines ns ! i =
     (if i < n_lines pd then (lines ! i)\<lparr>marker := ''o''\<rparr> else lines ! i)"
  by (simp add: update_lines_nth update_line_other)

text \<open>
  Claim C1 says that \<open>update_lines\<close> fails on a bundle whose number of dimensions is neither
  2 nor 3 and changes no object. \<open>def_lines\<close> does raise its ValueError on such a bundle.
  \<open>update_lines\<close> has no such branch: on a bundle of four dimensions it returns, and the
  line has a new marker (its data are untouched).
\<close>

theorem update_lines_no_dimension_check:
  "def_lines \<lparr>n_lines = 1, n_dims = 4, n_samples = 2, at3 = (\<lambda>i d t. int (10 * d + t))\<rparr> =
     Inl ValueError \<and>
   update_lines 1 \<lparr>n_lines = 1, n_dims = 4, n_samples = 2, at3 = (\<lambda>i d t. int (10 * d + t))\<rparr>
      [\<lparr>xydata = [[0], [10]], zdata = [], marker = ''None'', text_of = []\<rparr>] None =
     [\<lparr>xydata = [[0], [10]], zdata = [], marker = ''o'', text_of = []\<rparr>]"
  by (simp add: def_lines_def update_lines_def update_line_def Let_def set_marker_def)

section \<open>Properties of load_data\<close>

subsection \<open>Exceptions and dictionaries\<close>

lemma ebind_Inr [simp]: "ebind (Inr x) f = f x"
  by (simp add: ebind_def)

lemma ebind_Inl [simp]: "ebind (Inl e) f = Inl e"
  by (simp add: ebind_def)

lemma ebind_eq_Inr: "ebind m f = Inr y \<longleftrightarrow> (\<exists>x. m = Inr x \<and> f x = Inr y)"
  by (cases m) auto

lemma map_of_dict_update: "map_of (dict_update k v d) = (map_of d)(k \<mapsto> v)"
  by (induction d) (auto simp add: fun_eq_iff)

lemma dict_update_twice: "dict_update k v (dict_update k v' d) = dict_update k v d"
  by (induction d) auto

lemma keys_dict_update: "fst ` set (dict_update k v d) = insert k (fst ` set d)"
  by (induction d) auto

lemma set_nested_fresh:
  "set_nested k sub v (dict_update k (Dict inner) d) =
     Inr (dict_update k (Dict (dict_update sub v inner)) d)"
  by (simp add: set_nested_def map_of_dict_update dict_update_twice)

subsection \<open>One pass of the loop\<close>

text \<open>
  In the analog branch the empty dictionary stored first is filled in two steps; the
  outcome is one store of the finished dictionary.
\<close>

lemma load_key_cases:
  "load_key ft md st key =
     (if str_contains ''Align'' key then
        (case map_of is_analog_file ft of
           None \<Rightarrow> Inl (KeyError ft)
         | Some True \<Rightarrow>
             ebind (mat_getitem md key) (\<lambda>v.
             ebind (getfield v ''TimeStamps'') (\<lambda>f1.
             ebind (index2 f1 0 0) (\<lambda>ts.
             ebind (getfield v ''Samples'') (\<lambda>f2.
             ebind (index2 f2 0 0) (\<lambda>ss.
             Inr (st\<lparr>pydata := dict_update key
                    (Dict [(''TimeStamps'', ts), (''Samples'', ss)]) (pydata st)\<rparr>))))))
         | Some False \<Rightarrow>
             ebind (mat_getitem md key) (\<lambda>v. Inr (st\<lparr>pydata := dict_update key v (pydata st)\<rparr>)))
      else if key = ''area'' then
        ebind (mat_getitem md key) (\<lambda>v. Inr (st\<lparr>pydata := dict_update key v (pydata st)\<rparr>))
      else if key = ''unitList'' then
        ebind (mat_getitem md key) (\<lambda>v.
        ebind (minus1 v) (\<lambda>w. Inr (st\<lparr>pydata := dict_update key w (pydata st)\<rparr>)))
      else
        (case mat_getitem md key of
           Inr v \<Rightarrow> Inr (st\<lparr>pydata := dict_update key v (pydata st)\<rparr>)
         | Inl e \<Rightarrow> Inr (st\<lparr>printed := printed st @ [''Cannot process '' @ key]\<rparr>)))"
proof -
  have analog:
    "(let d0 = dict_update key (Dict []) (pydata st) in
              ebind (mat_getitem md key) (\<lambda>v1.
              ebind (getfield v1 ''TimeStamps'') (\<lambda>f1.
              ebind (index2 f1 0 0) (\<lambda>ts.
              ebind (set_nested key ''TimeStamps'' ts d0) (\<lambda>d1.
              ebind (mat_getitem md key) (\<lambda>v2.
              ebind (getfield v2 ''Samples'') (\<lambda>f2.
              ebind (index2 f2 0 0) (\<lambda>ss.
              ebind (set_nested key ''Samples'' ss d1) (\<lambda>d2.
              Inr (st\<lparr>pydata := d2\<rparr>)))))))))) =
     ebind (mat_getitem md key) (\<lambda>v.
             ebind (getfield v ''TimeStamps'') (\<lambda>f1.
             ebind (index2 f1 0 0) (\<lambda>ts.
             ebind (getfield v ''Samples'') (\<lambda>f2.
             ebind (index2 f2 0 0) (\<lambda>ss.
             Inr (st\<lparr>pydata := dict_update key
                    (Dict [(''TimeStamps'', ts), (''Samples'', ss)]) (pydata st)\<rparr>))))))"
    by (simp add: Let_def set_nested_fresh dict_update_twice ebind_def split: sum.splits)
  show ?thesis
    unfolding load_key_def analog by (rule refl)
qed


lemma key_entry_cases:
  "key_entry ft md key =
     (if str_contains ''Align'' key then
        (case map_of is_analog_file ft of
           None \<Rightarrow> Inl (KeyError ft)
         | Some True \<Rightarrow>
             ebind (mat_getitem md key) (\<lambda>v.
             ebind (getfield v ''TimeStamps'') (\<lambda>f1.
             ebind (index2 f1 0 0) (\<lambda>ts.
             ebind (getfield v ''Samples'') (\<lambda>f2.
             ebind (index2 f2 0 0) (\<lambda>ss.
             Inr (Some (Dict [(''TimeStamps'', ts), (''Samples'', ss)])))))))
         | Some False \<Rightarrow> ebind (mat_getitem md key) (\<lambda>v. Inr (Some v)))
      else if key = ''area'' then ebind (mat_getitem md key) (\<lambda>v. Inr (Some v))
      else if key = ''unitList'' then
        ebind (mat_getitem md key) (\<lambda>v. ebind (minus1 v) (\<lambda>w. Inr (Some w)))
      else
        (case mat_getitem md key of Inr v \<Rightarrow> Inr (Some v) | Inl e \<Rightarrow> Inr None))"
  by (simp add: key_entry_def load_key_cases ebind_def split: sum.splits option.splits bool.splits)

lemma load_key_entry:
  "load_key ft md st key =
     (case key_entry ft md key of
        Inl e \<Rightarrow> Inl e
      | Inr None \<Rightarrow> Inr (st\<lparr>printed := printed st @ [''Cannot process '' @ key]\<rparr>)
      | Inr (Some v) \<Rightarrow> Inr (st\<lparr>pydata := dict_update key v (pydata st)\<rparr>))"
  by (simp add: key_entry_cases load_key_cases ebind_def split: sum.splits option.splits bool.splits)

subsection \<open>The loop over the keys\<close>

lemma load_loop_append:
  "load_loop ft md st (xs @ ys) =
     (case load_loop ft md st xs of Inl e \<Rightarrow> Inl e | Inr st1 \<Rightarrow> load_loop ft md st1 ys)"
  by (induction xs arbitrary: st) (auto split: sum.splits)

lemma load_loop_ok:
  "load_loop ft md st ks = Inr st' \<Longrightarrow> k \<in> set ks \<Longrightarrow> \<exists>r. key_entry ft md k = Inr r"
proof (induction ks arbitrary: st)
  case Nil
  then show ?case by simp
next
  case (Cons a ks)
  then show ?case
    by (auto simp add: load_key_entry split: sum.splits option.splits)
qed

lemma load_loop_map_of:
  "load_loop ft md st ks = Inr st' \<Longrightarrow>
   map_of (pydata st') k =
     (if k \<in> set ks then
        (case key_entry ft md k of Inr (Some v) \<Rightarrow> Some v | _ \<Rightarrow> map_of (pydata st) k)
      else map_of (pydata st) k)"
proof (induction ks arbitrary: st)
  case Nil
  then show ?case by simp
next
  case (Cons a ks)
  from Cons.prems obtain st1 where
    step: "load_key ft md st a = Inr st1" and rest: "load_loop ft md st1 ks = Inr st'"
    by (auto split: sum.splits)
  from step have other: "k \<noteq> a \<Longrightarrow> map_of (pydata st1) k = map_of (pydata st) k"
    by (auto simp add: load_key_entry map_of_dict_update split: sum.splits option.splits)
  from step have same:
    "map_of (pydata st1) a =
       (case key_entry ft md a of Inr (Some v) \<Rightarrow> Some v | _ \<Rightarrow> map_of (pydata st) a)"
    by (auto simp add: load_key_entry map_of_dict_update split: sum.splits option.splits)
  show ?case
    using Cons.IH [OF rest] other same
    by (cases "k = a") (auto split: sum.splits option.splits)
qed


lemma load_loop_total:
  "\<forall>k \<in> set ks. \<exists>r. key_entry ft md k = Inr r \<Longrightarrow> \<exists>st'. load_loop ft md st ks = Inr st'"
proof (induction ks arbitrary: st)
  case Nil
  then show ?case by simp
next
  case (Cons a ks)
  then obtain r where "key_entry ft md a = Inr r" by auto
  then obtain st1 where "load_key ft md st a = Inr st1"
    by (cases r) (auto simp add: load_key_entry)
  with Cons show ?case by auto
qed

lemma load_data_loop:
  "load_data fn md = load_loop (filetype_of fn) md \<lparr>pydata = [], printed = []\<rparr> (mat_keys md)"
  by (simp add: load_data_def filetype_of_def split_def)

lemma map_of_None_keys: "map_of d k = None \<longleftrightarrow> k \<notin> fst ` set d"
  by (simp add: map_of_eq_None_iff)


subsection \<open>The file type and the category of the specification\<close>

text \<open>
  \<open>os.path.splitext\<close> cuts at the last dot, the specification at the first one. The two
  agree whenever the file type is one of the table: it has no dot in it.
\<close>

lemma rfind_in:
  assumes "c \<in> set s"
  shows "0 \<le> rfind c s \<and> rfind c s < int (length s) \<and> s ! nat (rfind c s) = c"
proof -
  let ?n = "length (takeWhile (\<lambda>x. x \<noteq> c) (rev s))"
  have "?n \<noteq> length (rev s)"
  proof
    assume "?n = length (rev s)"
    then have "takeWhile (\<lambda>x. x \<noteq> c) (rev s) = rev s"
      using takeWhile_eq_take [of "\<lambda>x. x \<noteq> c" "rev s"] by simp
    then have "\<forall>x \<in> set (rev s). x \<noteq> c" by (simp only: takeWhile_eq_all_conv)
    with assms show False by auto
  qed
  then have lt: "?n < length s"
    using length_takeWhile_le [of "\<lambda>x. x \<noteq> c" "rev s"] by simp
  then have "rev s ! ?n = c"
    using nth_length_takeWhile [of "\<lambda>x. x \<noteq> c" "rev s"] by simp
  define m where "m = length s - Suc ?n"
  from \<open>rev s ! ?n = c\<close> have "s ! m = c"
    using lt by (simp add: rev_nth m_def)
  moreover have "rfind c s = int m"
    using assms lt by (simp add: rfind_def m_def)
  moreover have "m < length s"
    using lt by (simp add: m_def)
  ultimately show ?thesis by simp
qed

lemma rfind_absent: "c \<notin> set s \<Longrightarrow> rfind c s = - 1"
  by (simp add: rfind_def)

lemma splitext_root_no_dot:
  assumes "CHR ''.'' \<notin> set (fst (os_path_splitext name))"
  shows "takeWhile (\<lambda>c. c \<noteq> CHR ''.'') name = fst (os_path_splitext name)"
proof (cases "rfind CHR ''/'' name < rfind CHR ''.'' name \<and>
    list_ex (\<lambda>c. c \<noteq> CHR ''.'')
      (take (nat (rfind CHR ''.'' name - (rfind CHR ''/'' name + 1)))
         (drop (nat (rfind CHR ''/'' name + 1)) name))")
  case False
  then have "fst (os_path_splitext name) = name"
    by (auto simp add: os_path_splitext_def Let_def)
  with assms show ?thesis by auto
next
  case True
  then have root: "fst (os_path_splitext name) = take (nat (rfind CHR ''.'' name)) name"
    by (simp add: os_path_splitext_def Let_def)
  have "- 1 \<le> rfind CHR ''/'' name"
    using rfind_in [of "CHR ''/''" name] rfind_absent [of "CHR ''/''" name]
    by (cases "CHR ''/'' \<in> set name") auto
  with True have "0 \<le> rfind CHR ''.'' name" by simp
  then have dot: "CHR ''.'' \<in> set name"
    using rfind_absent [of "CHR ''.''" name] by auto
  let ?d = "nat (rfind CHR ''.'' name)"
  from rfind_in [OF dot] have d: "?d < length name" "name ! ?d = CHR ''.''" by auto
  have "takeWhile (\<lambda>c. c \<noteq> CHR ''.'') name = take ?d name"
  proof (rule takeWhile_eq_take_P_nth)
    fix i
    assume "i < ?d" "i < length name"
    then have "name ! i \<in> set (take ?d name)"
      by (auto simp add: in_set_conv_nth)
    with assms root show "name ! i \<noteq> CHR ''.''" by auto
  next
    show "\<not> name ! ?d \<noteq> CHR ''.''" using d by simp
  qed
  with root show ?thesis by simp
qed

lemma known_filetype_is_category:
  assumes "filetype_of fn \<in>
    {''LFP'', ''LFPb'', ''MUAe'', ''NCS'', ''CSC'', ''hash'', ''unit'', ''microsaccades''}"
  shows "category_before_first_dot fn = filetype_of fn"
proof -
  from assms have "CHR ''.'' \<notin> set (filetype_of fn)" by auto
  then show ?thesis
    unfolding category_before_first_dot_def filetype_of_def by (rule splitext_root_no_dot)
qed

lemma analog_table:
  "map_of is_analog_file ft =
     (if ft \<in> {''LFP'', ''LFPb'', ''MUAe'', ''NCS'', ''CSC''} then Some True
      else if ft \<in> {''hash'', ''unit'', ''microsaccades''} then Some False
      else None)"
  by (simp add: is_analog_file_def)


subsection \<open>Fields aligned to events\<close>

lemma load_data_entry:
  assumes "load_data fn md = Inr st" and "key \<in> set (mat_keys md)"
  shows "\<exists>r. key_entry (filetype_of fn) md key = Inr r \<and> map_of (pydata st) key = r"
proof -
  from assms have loop:
    "load_loop (filetype_of fn) md \<lparr>pydata = [], printed = []\<rparr> (mat_keys md) = Inr st"
    by (simp add: load_data_loop)
  from load_loop_ok [OF loop assms(2)] obtain r where r: "key_entry (filetype_of fn) md key = Inr r"
    by auto
  from load_loop_map_of [OF loop, of key] assms(2) r have "map_of (pydata st) key = r"
    by (cases r) auto
  with r show ?thesis by simp
qed

lemma filetype_LFP: "filetype_of ''/data/LFP.mat'' = ''LFP''"
  by (simp add: filetype_of_def os_path_split_def os_path_splitext_def rfind_def Let_def)

lemma filetype_hash: "filetype_of ''hash.mat'' = ''hash''"
  by (simp add: filetype_of_def os_path_split_def os_path_splitext_def rfind_def Let_def)

text \<open>
  Claim C2. Let \<open>load_data\<close> return a dictionary for a record, and let a key of the record
  contain \<open>Align\<close>. If the file type is LFP, LFPb, MUAe, NCS or CSC, the dictionary has
  under that key a new dictionary with \<open>TimeStamps\<close> = \<open>raw[key]['TimeStamps'][0][0]\<close> and
  \<open>Samples\<close> = \<open>raw[key]['Samples'][0][0]\<close>. If the file type is hash, unit or
  microsaccades, it has the raw value itself. The file type is then one of these eight.
\<close>

theorem load_data_align:
  assumes "load_data fn md = Inr st" and "key \<in> set (mat_keys md)"
    and "str_contains ''Align'' key"
  shows "(filetype_of fn \<in> {''LFP'', ''LFPb'', ''MUAe'', ''NCS'', ''CSC''} \<longrightarrow>
           (\<exists>raw f1 f2 ts ss.
              mat_getitem md key = Inr raw \<and>
              getfield raw ''TimeStamps'' = Inr f1 \<and> index2 f1 0 0 = Inr ts \<and>
              getfield raw ''Samples'' = Inr f2 \<and> index2 f2 0 0 = Inr ss \<and>
              map_of (pydata st) key = Some (Dict [(''TimeStamps'', ts), (''Samples'', ss)]))) \<and>
         (filetype_of fn \<in> {''hash'', ''unit'', ''microsaccades''} \<longrightarrow>
           (\<exists>raw. mat_getitem md key = Inr raw \<and> map_of (pydata st) key = Some raw)) \<and>
         filetype_of fn \<in>
           {''LFP'', ''LFPb'', ''MUAe'', ''NCS'', ''CSC'', ''hash'', ''unit'', ''microsaccades''}"
proof -
  from load_data_entry [OF assms(1,2)] obtain r where
    r: "key_entry (filetype_of fn) md key = Inr r" and out: "map_of (pydata st) key = r"
    by auto
  have known: "filetype_of fn \<in>
      {''LFP'', ''LFPb'', ''MUAe'', ''NCS'', ''CSC'', ''hash'', ''unit'', ''microsaccades''}"
    using r assms(3) by (auto simp add: key_entry_cases analog_table split: if_splits)
  have analog: "\<exists>raw f1 f2 ts ss.
              mat_getitem md key = Inr raw \<and>
              getfield raw ''TimeStamps'' = Inr f1 \<and> index2 f1 0 0 = Inr ts \<and>
              getfield raw ''Samples'' = Inr f2 \<and> index2 f2 0 0 = Inr ss \<and>
              map_of (pydata st) key = Some (Dict [(''TimeStamps'', ts), (''Samples'', ss)])"
    if "filetype_of fn \<in> {''LFP'', ''LFPb'', ''MUAe'', ''NCS'', ''CSC''}"
  proof -
    from that have "map_of is_analog_file (filetype_of fn) = Some True"
      by (simp only: analog_table if_True)
    with r assms(3) out show ?thesis
      by (auto simp add: key_entry_cases ebind_eq_Inr)
  qed
  have other: "\<exists>raw. mat_getitem md key = Inr raw \<and> map_of (pydata st) key = Some raw"
    if "filetype_of fn \<in> {''hash'', ''unit'', ''microsaccades''}"
  proof -
    from that have "map_of is_analog_file (filetype_of fn) = Some False"
      by (auto simp add: analog_table)
    with r assms(3) out show ?thesis
      by (auto simp add: key_entry_cases ebind_eq_Inr)
  qed
  from known analog other show ?thesis by blast
qed

lemma load_data_LFP_example:
  "load_data ''/data/LFP.mat''
     (dict_of [(''XAlign'', Rec [(''TimeStamps'', Arr [Arr [Arr [Num 1, Num 2]]]),
                                 (''Samples'', Arr [Arr [Arr [Num 5, Num 6]]])])]) =
   Inr \<lparr>pydata = [(''XAlign'', Dict [(''TimeStamps'', Arr [Num 1, Num 2]),
                                     (''Samples'', Arr [Num 5, Num 6])])],
        printed = []\<rparr>"
  by (simp add: load_data_loop filetype_LFP load_key_cases analog_table dict_of_def
      dict_getitem_def index2_def)

lemma load_data_hash_example:
  "load_data ''hash.mat''
     (dict_of [(''XAlign'', Rec [(''TimeStamps'', Arr [Arr [Arr [Num 1, Num 2]]]),
                                 (''Samples'', Arr [Arr [Arr [Num 5, Num 6]]])])]) =
   Inr \<lparr>pydata = [(''XAlign'', Rec [(''TimeStamps'', Arr [Arr [Arr [Num 1, Num 2]]]),
                                    (''Samples'', Arr [Arr [Arr [Num 5, Num 6]]])])],
        printed = []\<rparr>"
  by (simp add: load_data_loop filetype_hash load_key_cases analog_table dict_of_def
      dict_getitem_def index2_def)

theorem load_data_align_witness:
  "(\<exists>st. load_data ''/data/LFP.mat''
            (dict_of [(''XAlign'', Rec [(''TimeStamps'', Arr [Arr [Arr [Num 1, Num 2]]]),
                                        (''Samples'', Arr [Arr [Arr [Num 5, Num 6]]])])]) = Inr st \<and>
         map_of (pydata st) ''XAlign'' =
           Some (Dict [(''TimeStamps'', Arr [Num 1, Num 2]), (''Samples'', Arr [Num 5, Num 6])])) \<and>
   (\<exists>st. load_data ''hash.mat''
            (dict_of [(''XAlign'', Rec [(''TimeStamps'', Arr [Arr [Arr [Num 1, Num 2]]]),
                                        (''Samples'', Arr [Arr [Arr [Num 5, Num 6]]])])]) = Inr st \<and>
         map_of (pydata st) ''XAlign'' =
           Some (Rec [(''TimeStamps'', Arr [Arr [Arr [Num 1, Num 2]]]),
                      (''Samples'', Arr [Arr [Arr [Num 5, Num 6]]])]))"
  using load_data_align [OF load_data_LFP_example, of "''XAlign''"]
    load_data_align [OF load_data_hash_example, of "''XAlign''"]
    load_data_LFP_example load_data_hash_example
  by (simp add: filetype_LFP filetype_hash dict_of_def)

subsection \<open>unitList and area\<close>





subsection \<open>Every key is kept or reported\<close>







subsection \<open>File types outside the table\<close>

lemma key_entry_unknown:
  "str_contains ''Align'' key \<Longrightarrow>
   ft \<notin> {''LFP'', ''LFPb'', ''MUAe'', ''NCS'', ''CSC'', ''hash'', ''unit'', ''microsaccades''} \<Longrightarrow>
   key_entry ft md key = Inl (KeyError ft)"
  by (simp add: key_entry_cases analog_table)

lemma load_loop_first_error:
  assumes "\<forall>k \<in> set pre. \<exists>r. key_entry ft md k = Inr r" and "key_entry ft md key = Inl e"
  shows "load_loop ft md st (pre @ key # post) = Inl e"
proof -
  from load_loop_total [OF assms(1)] obtain st1 where "load_loop ft md st pre = Inr st1"
    by blast
  with assms(2) show ?thesis
    by (simp add: load_loop_append load_key_entry)
qed

text \<open>
  Claim C5, as the code has it. Let a key of the record contain \<open>Align\<close>, and let the
  category of the file (taken as the code does, before the last dot, or as the
  specification does, before the first) be none of the eight of the table. Then
  \<open>load_data\<close> returns no dictionary at all. It raises the KeyError of the file type when
  the keys before the first such key are processed without an exception, that is, when an
  \<open>area\<close> among them can be read and a \<open>unitList\<close> among them can be read and decremented.
\<close>

theorem unknown_category_raises:
  assumes "key \<in> set (mat_keys md)" and "str_contains ''Align'' key"
    and "filetype_of fn \<notin>
           {''LFP'', ''LFPb'', ''MUAe'', ''NCS'', ''CSC'', ''hash'', ''unit'', ''microsaccades''} \<or>
         category_before_first_dot fn \<notin>
           {''LFP'', ''LFPb'', ''MUAe'', ''NCS'', ''CSC'', ''hash'', ''unit'', ''microsaccades''}"
  shows "(\<exists>e. load_data fn md = Inl e) \<and>
         ((\<forall>k \<in> set (takeWhile (\<lambda>k. \<not> str_contains ''Align'' k) (mat_keys md)).
             (k = ''area'' \<longrightarrow> (\<exists>v. mat_getitem md k = Inr v)) \<and>
             (k = ''unitList'' \<longrightarrow> (\<exists>v w. mat_getitem md k = Inr v \<and> minus1 v = Inr w))) \<longrightarrow>
          load_data fn md = Inl (KeyError (filetype_of fn)))"
proof -
  let ?ft = "filetype_of fn"
  have unknown: "?ft \<notin>
      {''LFP'', ''LFPb'', ''MUAe'', ''NCS'', ''CSC'', ''hash'', ''unit'', ''microsaccades''}"
    using assms(3) known_filetype_is_category [of fn] by auto
  have raises: "key_entry ?ft md k = Inl (KeyError ?ft)" if "str_contains ''Align'' k" for k
    using that unknown by (rule key_entry_unknown)
  have "\<exists>e. load_data fn md = Inl e"
  proof (cases "load_data fn md")
    case (Inl e)
    then show ?thesis by simp
  next
    case (Inr st)
    from load_data_entry [OF Inr assms(1)] raises [OF assms(2)] show ?thesis by simp
  qed
  moreover have "load_data fn md = Inl (KeyError ?ft)"
    if ok: "\<forall>k \<in> set (takeWhile (\<lambda>k. \<not> str_contains ''Align'' k) (mat_keys md)).
             (k = ''area'' \<longrightarrow> (\<exists>v. mat_getitem md k = Inr v)) \<and>
             (k = ''unitList'' \<longrightarrow> (\<exists>v w. mat_getitem md k = Inr v \<and> minus1 v = Inr w))"
  proof -
    let ?P = "\<lambda>k. \<not> str_contains ''Align'' k"
    let ?pre = "takeWhile ?P (mat_keys md)"
    from assms(1,2) have "dropWhile ?P (mat_keys md) \<noteq> []" by auto
    then obtain k0 post where drop: "dropWhile ?P (mat_keys md) = k0 # post"
      by (cases "dropWhile ?P (mat_keys md)") auto
    then have k0: "str_contains ''Align'' k0"
      using hd_dropWhile [of ?P "mat_keys md"] by auto
    have keys: "mat_keys md = ?pre @ k0 # post"
      using takeWhile_dropWhile_id [of ?P "mat_keys md"] drop by simp
    have pre: "\<exists>r. key_entry ?ft md k = Inr r" if "k \<in> set ?pre" for k
    proof -
      from that have "\<not> str_contains ''Align'' k" by (auto dest: set_takeWhileD)
      moreover from ok that have
        "k = ''area'' \<longrightarrow> (\<exists>v. mat_getitem md k = Inr v)"
        "k = ''unitList'' \<longrightarrow> (\<exists>v w. mat_getitem md k = Inr v \<and> minus1 v = Inr w)"
        by auto
      ultimately show ?thesis
        by (auto simp add: key_entry_cases split: sum.splits)
    qed
    then have "\<forall>k \<in> set ?pre. \<exists>r. key_entry ?ft md k = Inr r" by blast
    from load_loop_first_error [OF this raises [OF k0], of "\<lparr>pydata = [], printed = []\<rparr>" post] keys
    show ?thesis by (simp add: load_data_loop)
  qed
  ultimately show ?thesis by blast
qed

lemma category_spikes: "category_before_first_dot ''spikes.mat'' = ''spikes''"
  by (simp add: category_before_first_dot_def os_path_split_def rfind_def Let_def)

lemma filetype_spikes: "filetype_of ''spikes.mat'' = ''spikes''"
  by (simp add: filetype_of_def os_path_split_def os_path_splitext_def rfind_def Let_def)

theorem unknown_category_raises_witness:
  "load_data ''spikes.mat''
     (dict_of [(''unitList'', Arr [Num 1, Num 2]), (''XAlign'', Arr [])]) =
   Inl (KeyError ''spikes'')"
  using unknown_category_raises
    [of "''XAlign''" "dict_of [(''unitList'', Arr [Num 1, Num 2]), (''XAlign'', Arr [])]"
        "''spikes.mat''"]
  by (simp add: filetype_spikes dict_of_def dict_getitem_def)

text \<open>
  The claim C5 as it was stated fails: in a file of an unknown category whose \<open>unitList\<close>
  is an array of strings and comes before the key \<open>XAlign\<close>, the subtraction raises a
  TypeError, and the table is never looked up.
\<close>

theorem type_error_before_lookup_error:
  "''XAlign'' \<in> set (mat_keys (dict_of [(''unitList'', Arr [Str ''a'']), (''XAlign'', Arr [])])) \<and>
   str_contains ''Align'' ''XAlign'' \<and>
   category_before_first_dot ''spikes.mat'' \<notin>
     {''LFP'', ''LFPb'', ''MUAe'', ''NCS'', ''CSC'', ''hash'', ''unit'', ''microsaccades''} \<and>
   load_data ''spikes.mat'' (dict_of [(''unitList'', Arr [Str ''a'']), (''XAlign'', Arr [])]) =
     Inl TypeError"
  by (simp add: category_spikes load_data_loop filetype_spikes load_key_cases dict_of_def
      dict_getitem_def)

section \<open>Properties of load_trialdata\<close>

subsection \<open>The attention condition\<close>

lemma attend_of_cond_map:
  "attend_of_cond cs (length cs) = map attention_condition cs"
  by (induction cs)
     (auto simp add: attend_of_cond_def Let_def mask_assign_def logical_or_def attention_condition_def)

lemma attend_example: "attend_of_cond [1, 2, 3, 4, 5, 6, 7] 7 = [1, 2, 3, 1, 2, 3, 0]"
  using attend_of_cond_map [of "[1, 2, 3, 4, 5, 6, 7]"]
  by (simp add: attention_condition_def eval_nat_numeral)

subsection \<open>One pass of the loop over the trials\<close>

lemma trial_step_Inr:
  "trial_step trials a i = Inr a' \<Longrightarrow>
   (\<exists>v0 v1 v2 v3 v4 v5 v6 v7 v8 v9 v10 v11.
      field trials i 0 = Inr v0 \<and> field trials i 1 = Inr v1 \<and>
      scalar trials i 2 = Inr v2 \<and> scalar trials i 3 = Inr v3 \<and>
      scalar trials i 4 = Inr v4 \<and> scalar trials i 5 = Inr v5 \<and>
      scalar trials i 6 = Inr v6 \<and> scalar trials i 7 = Inr v7 \<and>
      scalar trials i 8 = Inr v8 \<and> scalar trials i 9 = Inr v9 \<and>
      scalar trials i 10 = Inr v10 \<and> scalar trials i 11 = Inr v11 \<and>
      a' = a\<lparr>arr_CTX_events := (arr_CTX_events a)[i := v0],
            arr_NLX_events := (arr_NLX_events a)[i := v1],
            arr_trial_ID := (arr_trial_ID a)[i := v2],
            arr_cond := (arr_cond a)[i := v3],
            arr_RT_evnt := (arr_RT_evnt a)[i := v4],
            arr_RT_EPP := (arr_RT_EPP a)[i := v5],
            arr_target_dim := (arr_target_dim a)[i := v6],
            arr_rf_dim := (arr_rf_dim a)[i := v7],
            arr_position_RF := (arr_position_RF a)[i := v8],
            arr_position_out1 := (arr_position_out1 a)[i := v9],
            arr_position_out2 := (arr_position_out2 a)[i := v10],
            arr_fixbreak := (arr_fixbreak a)[i := v11]\<rparr>)"
  unfolding trial_step_def
  by (auto simp add: ebind_def split: sum.splits)


lemma trial_step_lengths:
  "trial_step trials a i = Inr a' \<Longrightarrow> arrays_of_length a n \<Longrightarrow> arrays_of_length a' n"
  by (drule trial_step_Inr) (auto simp add: arrays_of_length_def)

subsection \<open>The loop over the trials\<close>

lemma trial_loop_lengths:
  "trial_loop trials a is = Inr a' \<Longrightarrow> arrays_of_length a n \<Longrightarrow> arrays_of_length a' n"
proof (induction "is" arbitrary: a)
  case Nil
  then show ?case by simp
next
  case (Cons i "is")
  then show ?case
    by (auto split: sum.splits dest: trial_step_lengths)
qed

lemma trial_step_cond:
  "trial_step trials a i = Inr a' \<Longrightarrow>
   \<exists>v. scalar trials i 3 = Inr v \<and> arr_cond a' = (arr_cond a)[i := v]"
  by (drule trial_step_Inr) auto

lemma trial_step_last_field:
  "trial_step trials a i = Inr a' \<Longrightarrow> \<exists>v. scalar trials i 11 = Inr v"
  by (drule trial_step_Inr) auto

lemma trial_loop_cond_other:
  "trial_loop trials a is = Inr a' \<Longrightarrow> j \<notin> set is \<Longrightarrow> arr_cond a' ! j = arr_cond a ! j"
proof (induction "is" arbitrary: a)
  case Nil
  then show ?case by simp
next
  case (Cons i "is")
  from Cons.prems obtain a1 where
    step: "trial_step trials a i = Inr a1" and rest: "trial_loop trials a1 is = Inr a'"
    by (auto split: sum.splits)
  from trial_step_cond [OF step] Cons.prems(2) have "arr_cond a1 ! j = arr_cond a ! j"
    by auto
  with Cons.IH [OF rest] Cons.prems(2) show ?case by simp
qed

lemma trial_loop_cond:
  "trial_loop trials a is = Inr a' \<Longrightarrow> j \<in> set is \<Longrightarrow> j < length (arr_cond a) \<Longrightarrow>
   scalar trials j 3 = Inr (arr_cond a' ! j)"
proof (induction "is" arbitrary: a)
  case Nil
  then show ?case by simp
next
  case (Cons i "is")
  from Cons.prems obtain a1 where
    step: "trial_step trials a i = Inr a1" and rest: "trial_loop trials a1 is = Inr a'"
    by (auto split: sum.splits)
  from trial_step_cond [OF step] obtain v where
    v: "scalar trials i 3 = Inr v" and a1: "arr_cond a1 = (arr_cond a)[i := v]"
    by auto
  show ?case
  proof (cases "j \<in> set is")
    case True
    from Cons.IH [OF rest True] a1 Cons.prems(3) show ?thesis by simp
  next
    case False
    with Cons.prems(2) have "j = i" by simp
    with trial_loop_cond_other [OF rest False] a1 v Cons.prems(3) show ?thesis by simp
  qed
qed

lemma trial_loop_last_field:
  "trial_loop trials a is = Inr a' \<Longrightarrow> j \<in> set is \<Longrightarrow> \<exists>v. scalar trials j 11 = Inr v"
proof (induction "is" arbitrary: a)
  case Nil
  then show ?case by simp
next
  case (Cons i "is")
  then show ?case
    by (auto split: sum.splits dest: trial_step_last_field)
qed



subsection \<open>Fields by position\<close>




subsection \<open>The table\<close>

lemma init_arrays_length: "arrays_of_length (init_arrays n) n"
  by (simp add: arrays_of_length_def init_arrays_def)

lemma data_frame_eq:
  assumes "arrays_of_length a n" and "length att = n"
  shows "data_frame a att =
           Inr (map (\<lambda>i. \<lparr>trial_ID = arr_trial_ID a ! i, attend = att ! i, cond = arr_cond a ! i,
                  RT_evnt = arr_RT_evnt a ! i, RT_EPP = arr_RT_EPP a ! i,
                  target_dim = arr_target_dim a ! i, rf_dim = arr_rf_dim a ! i,
                  position_RF = arr_position_RF a ! i,
                  position_out1 = arr_position_out1 a ! i,
                  position_out2 = arr_position_out2 a ! i, fixbreak = arr_fixbreak a ! i,
                  CTX_events = arr_CTX_events a ! i, NLX_events = arr_NLX_events a ! i\<rparr>) [0..<n])"
  using assms by (simp add: data_frame_def arrays_of_length_def Let_def)

lemma data_frame_rows:
  assumes "arrays_of_length a n" and "length att = n"
  shows "\<exists>tbl. data_frame a att = Inr tbl \<and> length tbl = n \<and>
           (\<forall>i < n. cond (tbl ! i) = arr_cond a ! i \<and> attend (tbl ! i) = att ! i)"
proof -
  let ?tbl = "map (\<lambda>i. \<lparr>trial_ID = arr_trial_ID a ! i, attend = att ! i, cond = arr_cond a ! i,
                  RT_evnt = arr_RT_evnt a ! i, RT_EPP = arr_RT_EPP a ! i,
                  target_dim = arr_target_dim a ! i, rf_dim = arr_rf_dim a ! i,
                  position_RF = arr_position_RF a ! i,
                  position_out1 = arr_position_out1 a ! i,
                  position_out2 = arr_position_out2 a ! i, fixbreak = arr_fixbreak a ! i,
                  CTX_events = arr_CTX_events a ! i, NLX_events = arr_NLX_events a ! i\<rparr>) [0..<n]"
  have "data_frame a att = Inr ?tbl" using assms by (rule data_frame_eq)
  moreover have "length ?tbl = n" by simp
  moreover have "cond (?tbl ! i) = arr_cond a ! i \<and> attend (?tbl ! i) = att ! i" if "i < n" for i
    using that by simp
  ultimately show ?thesis by blast
qed

lemma data_frame_Inr:
  "data_frame a att = Inr tbl \<Longrightarrow> length tbl = length (arr_trial_ID a)"
  by (auto simp add: data_frame_def Let_def split: if_splits)


text \<open>What a returned table says about the file.\<close>

lemma load_trialdata_Inr:
  assumes "load_trialdata md = Inr tbl"
  shows "\<exists>td trials a.
           mat_getitem md ''trialdata'' = Inr td \<and> index td 0 = Inr trials \<and>
           len trials = Inr (length tbl) \<and>
           trial_loop trials (init_arrays (length tbl)) [0..<length tbl] = Inr a \<and>
           (\<forall>i < length tbl.
              cond (tbl ! i) = arr_cond a ! i \<and>
              attend (tbl ! i) = attention_condition (arr_cond a ! i))"
proof -
  from assms obtain td trials n a where
    td: "mat_getitem md ''trialdata'' = Inr td" and trials: "index td 0 = Inr trials" and
    n: "len trials = Inr n" and
    loop: "trial_loop trials (init_arrays n) [0..<n] = Inr a" and
    frame: "data_frame a (attend_of_cond (arr_cond a) n) = Inr tbl"
    by (auto simp add: load_trialdata_def ebind_eq_Inr)
  from trial_loop_lengths [OF loop init_arrays_length] have len: "arrays_of_length a n" .
  then have cn: "length (arr_cond a) = n" by (simp add: arrays_of_length_def)
  then have att: "attend_of_cond (arr_cond a) n = map attention_condition (arr_cond a)"
    using attend_of_cond_map [of "arr_cond a"] by simp
  from data_frame_rows [OF len, of "attend_of_cond (arr_cond a) n"] att cn frame
  have "length tbl = n \<and>
      (\<forall>i < n. cond (tbl ! i) = arr_cond a ! i \<and>
         attend (tbl ! i) = attention_condition (arr_cond a ! i))"
    by auto
  with td trials n loop show ?thesis by auto
qed


subsection \<open>Trials that can and cannot be read\<close>







subsection \<open>The column of attention conditions\<close>

lemma load_trialdata_cond:
  assumes "load_trialdata md = Inr tbl"
  shows "\<exists>td trials.
           mat_getitem md ''trialdata'' = Inr td \<and> index td 0 = Inr trials \<and>
           len trials = Inr (length tbl) \<and>
           (\<forall>i < length tbl.
              scalar trials i 3 = Inr (cond (tbl ! i)) \<and>
              (\<exists>v. scalar trials i 11 = Inr v) \<and>
              attend (tbl ! i) = attention_condition (cond (tbl ! i)))"
proof -
  from load_trialdata_Inr [OF assms] obtain td trials a where
    td: "mat_getitem md ''trialdata'' = Inr td" and trials: "index td 0 = Inr trials" and
    n: "len trials = Inr (length tbl)" and
    loop: "trial_loop trials (init_arrays (length tbl)) [0..<length tbl] = Inr a" and
    rows: "\<forall>i < length tbl.
              cond (tbl ! i) = arr_cond a ! i \<and>
              attend (tbl ! i) = attention_condition (arr_cond a ! i)"
    by blast
  have "scalar trials i 3 = Inr (cond (tbl ! i)) \<and> (\<exists>v. scalar trials i 11 = Inr v) \<and>
      attend (tbl ! i) = attention_condition (cond (tbl ! i))" if "i < length tbl" for i
  proof -
    from that have "scalar trials i 3 = Inr (arr_cond a ! i)"
      using trial_loop_cond [OF loop, of i] by (simp add: init_arrays_def)
    moreover from that have "\<exists>v. scalar trials i 11 = Inr v"
      using trial_loop_last_field [OF loop, of i] by simp
    ultimately show ?thesis using rows that by simp
  qed
  with td trials n show ?thesis by blast
qed

text \<open>
  Claim C4. The column \<open>attend\<close> is a function of the column \<open>cond\<close>: the three masked
  stores of the code give, for every array of condition codes, the attention condition of
  each code (1 or 4 gives 1, 2 or 5 gives 2, 3 or 6 gives 3, any other code 0). The codes
  1 to 7 give 1, 2, 3, 1, 2, 3, 0. In every table that \<open>load_trialdata\<close> returns, the
  attention condition of each row is that of the row's condition code, which is the
  number in field 3 of the trial.
\<close>

theorem attend_from_cond:
  "attend_of_cond conds (length conds) = map attention_condition conds \<and>
   attend_of_cond [1, 2, 3, 4, 5, 6, 7] 7 = [1, 2, 3, 1, 2, 3, 0] \<and>
   (load_trialdata md = Inr tbl \<longrightarrow>
      map attend tbl = map attention_condition (map cond tbl) \<and>
      (\<exists>td trials.
         mat_getitem md ''trialdata'' = Inr td \<and> index td 0 = Inr trials \<and>
         (\<forall>i < length tbl. scalar trials i 3 = Inr (cond (tbl ! i)))))"
proof -
  have "map attend tbl = map attention_condition (map cond tbl) \<and>
      (\<exists>td trials.
         mat_getitem md ''trialdata'' = Inr td \<and> index td 0 = Inr trials \<and>
         (\<forall>i < length tbl. scalar trials i 3 = Inr (cond (tbl ! i))))"
    if ret: "load_trialdata md = Inr tbl"
  proof -
    from load_trialdata_cond [OF ret] obtain td trials where
      td: "mat_getitem md ''trialdata'' = Inr td" and trials: "index td 0 = Inr trials" and
      rows: "\<forall>i < length tbl.
              scalar trials i 3 = Inr (cond (tbl ! i)) \<and>
              (\<exists>v. scalar trials i 11 = Inr v) \<and>
              attend (tbl ! i) = attention_condition (cond (tbl ! i))"
      by blast
    have "map attend tbl = map attention_condition (map cond tbl)"
      using rows by (simp add: list_eq_iff_nth_eq)
    with td trials rows show ?thesis by blast
  qed
  with attend_of_cond_map attend_example show ?thesis by blast
qed

lemma load_trialdata_two_trials:
  "load_trialdata
     (dict_of [(''trialdata'', Arr [Arr [
     Arr [Arr [], Arr [], Arr [Arr [Num 1]], Arr [Arr [Num 4]], Arr [Arr [Num 0]], Arr [Arr [Num 0]],
          Arr [Arr [Num 0]], Arr [Arr [Num 0]], Arr [Arr [Num 0]], Arr [Arr [Num 0]],
          Arr [Arr [Num 0]], Arr [Arr [Num 0]]],
     Arr [Arr [], Arr [], Arr [Arr [Num 2]], Arr [Arr [Num 7]], Arr [Arr [Num 0]], Arr [Arr [Num 0]],
          Arr [Arr [Num 0]], Arr [Arr [Num 0]], Arr [Arr [Num 0]], Arr [Arr [Num 0]],
          Arr [Arr [Num 0]], Arr [Arr [Num 0]]]]])]) =
   Inr [\<lparr>trial_ID = 1, attend = 1, cond = 4, RT_evnt = 0, RT_EPP = 0, target_dim = 0,
          rf_dim = 0, position_RF = 0, position_out1 = 0, position_out2 = 0, fixbreak = 0,
          CTX_events = Arr [], NLX_events = Arr []\<rparr>,
        \<lparr>trial_ID = 2, attend = 0, cond = 7, RT_evnt = 0, RT_EPP = 0, target_dim = 0,
          rf_dim = 0, position_RF = 0, position_out1 = 0, position_out2 = 0, fixbreak = 0,
          CTX_events = Arr [], NLX_events = Arr []\<rparr>]"
  by (simp add: load_trialdata_def dict_of_def dict_getitem_def trial_step_def field_def
      scalar_def init_arrays_def data_frame_def attend_of_cond_def mask_assign_def
      logical_or_def Let_def upt_rec)

theorem attend_from_cond_witness:
  "\<exists>tbl. load_trialdata
     (dict_of [(''trialdata'', Arr [Arr [
     Arr [Arr [], Arr [], Arr [Arr [Num 1]], Arr [Arr [Num 4]], Arr [Arr [Num 0]], Arr [Arr [Num 0]],
          Arr [Arr [Num 0]], Arr [Arr [Num 0]], Arr [Arr [Num 0]], Arr [Arr [Num 0]],
          Arr [Arr [Num 0]], Arr [Arr [Num 0]]],
     Arr [Arr [], Arr [], Arr [Arr [Num 2]], Arr [Arr [Num 7]], Arr [Arr [Num 0]], Arr [Arr [Num 0]],
          Arr [Arr [Num 0]], Arr [Arr [Num 0]], Arr [Arr [Num 0]], Arr [Arr [Num 0]],
          Arr [Arr [Num 0]], Arr [Arr [Num 0]]]]])]) = Inr tbl \<and>
     map cond tbl = [4, 7] \<and> map attend tbl = [1, 0]"
  using attend_from_cond
    [where md = "(dict_of [(''trialdata'', Arr [Arr [
     Arr [Arr [], Arr [], Arr [Arr [Num 1]], Arr [Arr [Num 4]], Arr [Arr [Num 0]], Arr [Arr [Num 0]],
          Arr [Arr [Num 0]], Arr [Arr [Num 0]], Arr [Arr [Num 0]], Arr [Arr [Num 0]],
          Arr [Arr [Num 0]], Arr [Arr [Num 0]]],
     Arr [Arr [], Arr [], Arr [Arr [Num 2]], Arr [Arr [Num 7]], Arr [Arr [Num 0]], Arr [Arr [Num 0]],
          Arr [Arr [Num 0]], Arr [Arr [Num 0]], Arr [Arr [Num 0]], Arr [Arr [Num 0]],
          Arr [Arr [Num 0]], Arr [Arr [Num 0]]]]])])"
       and tbl = "[\<lparr>trial_ID = 1, attend = 1, cond = 4, RT_evnt = 0, RT_EPP = 0, target_dim = 0,
          rf_dim = 0, position_RF = 0, position_out1 = 0, position_out2 = 0, fixbreak = 0,
          CTX_events = Arr [], NLX_events = Arr []\<rparr>,
        \<lparr>trial_ID = 2, attend = 0, cond = 7, RT_evnt = 0, RT_EPP = 0, target_dim = 0,
          rf_dim = 0, position_RF = 0, position_out1 = 0, position_out2 = 0, fixbreak = 0,
          CTX_events = Arr [], NLX_events = Arr []\<rparr>]"]
    load_trialdata_two_trials
  by simp


subsection \<open>The number of rows\<close>









end
